theory Spec2Isabelle
  imports Complex_Main "HOL-Library.Word"
begin

section \<open>Strings\<close>

text \<open>
  A Python \<^verbatim>\<open>str\<close> is a sequence of Unicode code points, so a string is a list of
  code points (natural numbers). \<open>of_ascii\<close> reads an ASCII literal as such a list.
\<close>

type_synonym pystr = "nat list"

definition of_ascii :: "string \<Rightarrow> pystr" where
  "of_ascii s = map of_char s"

section \<open>The URL identifier extractor\<close>

text \<open>
  The three patterns of \<^verbatim>\<open>extract_video_id\<close> are a literal prefix followed by the
  group \<^verbatim>\<open>([\w-]{11})\<close>. For a \<^verbatim>\<open>str\<close> pattern Python's \<^verbatim>\<open>\w\<close> is the Unicode
  word class: on ASCII it is \<^verbatim>\<open>[a-zA-Z0-9_]\<close>, beyond ASCII it is the alphanumeric
  table of the Python runtime, which is the parameter \<open>uni\<close> of the model.
\<close>

definition ascii_word :: "nat \<Rightarrow> bool" where
  "ascii_word c =
     ((48 \<le> c \<and> c \<le> 57) \<or> (65 \<le> c \<and> c \<le> 90) \<or> c = 95 \<or> (97 \<le> c \<and> c \<le> 122))"

definition word_char :: "(nat \<Rightarrow> bool) \<Rightarrow> nat \<Rightarrow> bool" where
  "word_char uni c = (if c < 128 then ascii_word c else uni c)"

text \<open>The class \<^verbatim>\<open>[\w-]\<close> of the patterns; 45 is the hyphen.\<close>

definition id_char :: "(nat \<Rightarrow> bool) \<Rightarrow> nat \<Rightarrow> bool" where
  "id_char uni c = (word_char uni c \<or> c = 45)"

text \<open>The class \<^verbatim>\<open>[A-Za-z0-9_-]\<close> of the specification (its URL-safe characters).\<close>

definition url_safe :: "nat \<Rightarrow> bool" where
  "url_safe c = (ascii_word c \<or> c = 45)"

text \<open>
  A fragment of the runtime's table, for concrete runs: U+00E9 and the Hangul
  syllables U+AC00 to U+D7A3 are alphabetic.
\<close>

definition unicode_sample :: "nat \<Rightarrow> bool" where
  "unicode_sample c = (c = 233 \<or> (44032 \<le> c \<and> c \<le> 55203))"

text \<open>
  \<open>match_here uni lit s\<close> is the pattern \<open>lit\<close>\<^verbatim>\<open>([\w-]{11})\<close> matched at the start of
  \<open>s\<close>: the literal, then exactly eleven characters of the class; the result is the group.
\<close>

definition match_here :: "(nat \<Rightarrow> bool) \<Rightarrow> pystr \<Rightarrow> pystr \<Rightarrow> pystr option" where
  "match_here uni lit s =
     (let g = take 11 (drop (length lit) s)
      in if take (length lit) s = lit \<and> length g = 11 \<and> list_all (id_char uni) g
         then Some g else None)"

text \<open>\<^verbatim>\<open>re.search\<close>: the match at the leftmost position that has one.\<close>

fun re_search :: "(nat \<Rightarrow> bool) \<Rightarrow> pystr \<Rightarrow> pystr \<Rightarrow> pystr option" where
  "re_search uni lit [] = match_here uni lit []"
| "re_search uni lit (c # cs) =
     (case match_here uni lit (c # cs) of
        Some g \<Rightarrow> Some g
      | None \<Rightarrow> re_search uni lit cs)"

definition patterns :: "pystr list" where
  "patterns = [of_ascii ''v='', of_ascii ''youtu.be/'', of_ascii ''shorts/'']"

text \<open>The loop over the patterns: the first pattern with a match returns its group.\<close>

fun first_match :: "(nat \<Rightarrow> bool) \<Rightarrow> pystr list \<Rightarrow> pystr \<Rightarrow> pystr option" where
  "first_match uni [] url = None"
| "first_match uni (p # ps) url =
     (case re_search uni p url of
        Some g \<Rightarrow> Some g
      | None \<Rightarrow> first_match uni ps url)"

definition extract_video_id :: "(nat \<Rightarrow> bool) \<Rightarrow> pystr \<Rightarrow> pystr option" where
  "extract_video_id uni url = first_match uni patterns url"

text \<open>
  The shapes the specification speaks of: the URL holds the literal \<open>lit\<close> at offset \<open>i\<close>,
  followed by the eleven-character token \<open>X\<close>.
\<close>

definition shape_occurs :: "(nat \<Rightarrow> bool) \<Rightarrow> pystr \<Rightarrow> pystr \<Rightarrow> nat \<Rightarrow> pystr \<Rightarrow> bool" where
  "shape_occurs uni url lit i X =
     (length X = 11 \<and> list_all (id_char uni) X \<and>
      (\<exists>pre post. url = pre @ lit @ X @ post \<and> length pre = i))"

text \<open>
  The occurrence the search selects: no pattern listed before \<open>lit\<close> occurs anywhere in
  the URL, and \<open>lit\<close> itself does not occur further left than offset \<open>i\<close>.
\<close>

definition selected :: "(nat \<Rightarrow> bool) \<Rightarrow> pystr \<Rightarrow> pystr \<Rightarrow> nat \<Rightarrow> bool" where
  "selected uni url lit i =
     ((\<forall>lit' j X'. lit' \<in> set (takeWhile (\<lambda>p. p \<noteq> lit) patterns) \<longrightarrow>
          \<not> shape_occurs uni url lit' j X') \<and>
      (\<forall>j X'. shape_occurs uni url lit j X' \<longrightarrow> i \<le> j))"

section \<open>Exceptions\<close>

text \<open>
  The exception classes the handler tells apart (the three of \<^verbatim>\<open>youtube_transcript_api\<close>
  named in its first \<^verbatim>\<open>except\<close> clause), and every other \<^verbatim>\<open>Exception\<close> with its message.
  A call that may raise returns \<open>py_exception + 'a\<close>, \<open>Inl\<close> the exception raised.
\<close>

datatype py_exception =
  VideoUnavailable | TranscriptsDisabled | NoTranscriptFound | OtherException pystr

section \<open>The transcript library\<close>

text \<open>
  \<^verbatim>\<open>fetch_transcript\<close> calls the library \<^verbatim>\<open>youtube_transcript_api\<close>, which the
  program imports (the release with \<^verbatim>\<open>list_transcripts\<close>, whose \<^verbatim>\<open>fetch\<close> returns
  dictionaries with the keys \<^verbatim>\<open>text\<close>, \<^verbatim>\<open>start\<close> and \<^verbatim>\<open>duration\<close>). A
  \<^verbatim>\<open>TranscriptList\<close> of the library keeps two dictionaries from language code to
  track, one of the manually created tracks and one of the generated ones, and its
  lookups are
  \<^verbatim>\<open>
  def find_transcript(self, language_codes):
      return self._find_transcript(language_codes,
          [self._manually_created_transcripts, self._generated_transcripts])
  def find_generated_transcript(self, language_codes):
      return self._find_transcript(language_codes, [self._generated_transcripts])
  def _find_transcript(self, language_codes, transcript_dicts):
      for language_code in language_codes:
          for transcript_dict in transcript_dicts:
              if language_code in transcript_dict:
                  return transcript_dict[language_code]
      raise NoTranscriptFound(self.video_id, language_codes, self)
  \<close>
  So \<^verbatim>\<open>find_transcript\<close> looks, language by language, first among the manually created
  tracks and then among the generated ones.

  A fragment is one dictionary of \<^verbatim>\<open>fetch()\<close>; \<open>track_fetch\<close> is what \<^verbatim>\<open>fetch()\<close>, a
  remote call, answers for the track.
\<close>

record fragment =
  frag_text :: pystr
  frag_start :: rat
  frag_duration :: rat

record track =
  language_code :: pystr
  is_generated :: bool
  track_fetch :: "py_exception + fragment list"

record transcript_list =
  manually_created :: "pystr \<rightharpoonup> track"
  generated :: "pystr \<rightharpoonup> track"

text \<open>The inner loop of \<^verbatim>\<open>_find_transcript\<close>: the dictionaries in order, for one language.\<close>

fun find_in_dicts :: "(pystr \<rightharpoonup> track) list \<Rightarrow> pystr \<Rightarrow> track option" where
  "find_in_dicts [] l = None"
| "find_in_dicts (d # ds) l =
     (case d l of
        Some t \<Rightarrow> Some t
      | None \<Rightarrow> find_in_dicts ds l)"

text \<open>The outer loop of \<^verbatim>\<open>_find_transcript\<close>: the language codes in order.\<close>

fun lib_find_transcript :: "pystr list \<Rightarrow> (pystr \<rightharpoonup> track) list \<Rightarrow> py_exception + track" where
  "lib_find_transcript [] dicts = Inl NoTranscriptFound"
| "lib_find_transcript (l # ls) dicts =
     (case find_in_dicts dicts l of
        Some t \<Rightarrow> Inr t
      | None \<Rightarrow> lib_find_transcript ls dicts)"

definition find_transcript :: "transcript_list \<Rightarrow> pystr list \<Rightarrow> py_exception + track" where
  "find_transcript trs language_codes =
     lib_find_transcript language_codes [manually_created trs, generated trs]"

definition find_generated_transcript :: "transcript_list \<Rightarrow> pystr list \<Rightarrow> py_exception + track" where
  "find_generated_transcript trs language_codes =
     lib_find_transcript language_codes [generated trs]"

section \<open>The remote services\<close>

type_synonym bytes = "8 word list"

record chat_request =
  chat_model :: pystr
  messages :: "(pystr \<times> pystr) list"
  temperature :: rat

record speech_request =
  speech_model :: pystr
  voice :: pystr
  speed :: rat
  speech_input :: "pystr option"

text \<open>
  The object the synthesis call returns: \<open>read_attr\<close> is \<open>None\<close> when it has no attribute
  \<^verbatim>\<open>read\<close> and otherwise holds what calling \<^verbatim>\<open>read()\<close> gives; \<open>content_attr\<close> is its
  attribute \<^verbatim>\<open>content\<close>, when it has one; \<open>response_id\<close> is the identity of the object.
\<close>

record audio_response =
  read_attr :: "(py_exception + bytes) option"
  content_attr :: "bytes option"
  response_id :: nat

text \<open>What \<^verbatim>\<open>create_tts_audio\<close> returns: a byte string, or the response object itself.\<close>

datatype audio_value = AudioBytes bytes | AudioObject audio_response

text \<open>
  The two shapes of the OpenAI client the code supports: a call on the module
  (\<^verbatim>\<open>openai.ChatCompletion.create\<close>, \<^verbatim>\<open>openai.audio.speech.create\<close>) and a call on a
  client object made by \<^verbatim>\<open>openai.OpenAI(api_key=openai.api_key)\<close>.
\<close>

datatype api_shape = ModuleLevel | ClientObject

datatype remote_call =
  ListTranscripts pystr
| FetchTrack pystr bool
| ChatCreate api_shape pystr chat_request
| SpeechCreate api_shape pystr speech_request

text \<open>
  The world outside the program: the Unicode table of the runtime, the constant
  \<^verbatim>\<open>SYSTEM_PROMPT\<close> (a text with Korean sentences), the transcript service, and the
  OpenAI module with the attributes it has (\<^verbatim>\<open>hasattr\<close>) and what each of its calls
  answers for the credential in \<^verbatim>\<open>openai.api_key\<close> and a request.
\<close>

record env =
  unicode_alnum :: "nat \<Rightarrow> bool"
  system_prompt :: pystr
  list_transcripts :: "pystr \<Rightarrow> py_exception + transcript_list"
  has_ChatCompletion :: bool
  legacy_chat_create :: "pystr \<Rightarrow> chat_request \<Rightarrow> py_exception + pystr"
  client_chat_create :: "pystr \<Rightarrow> chat_request \<Rightarrow> py_exception + pystr"
  has_audio_speech :: bool
  module_speech_create :: "pystr \<Rightarrow> speech_request \<Rightarrow> py_exception + audio_response"
  client_speech_create :: "pystr \<Rightarrow> speech_request \<Rightarrow> py_exception + audio_response"

section \<open>The transcript retriever\<close>

text \<open>\<^verbatim>\<open>sep.join(xs)\<close> of Python.\<close>

fun join_str :: "pystr \<Rightarrow> pystr list \<Rightarrow> pystr" where
  "join_str sep [] = []"
| "join_str sep [x] = x"
| "join_str sep (x # y # ys) = x @ sep @ join_str sep (y # ys)"

definition preferred_languages :: "pystr list" where
  "preferred_languages = [of_ascii ''ko'', of_ascii ''en'', of_ascii ''en-US'', of_ascii ''en-GB'']"

definition fallback_languages :: "pystr list" where
  "fallback_languages = [of_ascii ''en'', of_ascii ''en-US'', of_ascii ''en-GB'']"

text \<open>
  Lines 60 to 63: \<^verbatim>\<open>find_transcript\<close>, and on \<^verbatim>\<open>NoTranscriptFound\<close> (no other exception
  is caught there) \<^verbatim>\<open>find_generated_transcript\<close>.
\<close>

definition select_transcript :: "transcript_list \<Rightarrow> py_exception + track" where
  "select_transcript trs =
     (case find_transcript trs preferred_languages of
        Inr t \<Rightarrow> Inr t
      | Inl NoTranscriptFound \<Rightarrow> find_generated_transcript trs fallback_languages
      | Inl e \<Rightarrow> Inl e)"

text \<open>
  \<^verbatim>\<open>fetch_transcript\<close>, with the remote calls it makes in the order it makes them. The
  space is code point 32.
\<close>

definition fetch_transcript :: "env \<Rightarrow> pystr \<Rightarrow> (py_exception + pystr) \<times> remote_call list" where
  "fetch_transcript e video_id =
     (case list_transcripts e video_id of
        Inl x \<Rightarrow> (Inl x, [ListTranscripts video_id])
      | Inr transcript_list \<Rightarrow>
          (case select_transcript transcript_list of
             Inl x \<Rightarrow> (Inl x, [ListTranscripts video_id])
           | Inr transcript \<Rightarrow>
               (case track_fetch transcript of
                  Inl x \<Rightarrow>
                    (Inl x, [ListTranscripts video_id,
                       FetchTrack (language_code transcript) (is_generated transcript)])
                | Inr parts \<Rightarrow>
                    (Inr (join_str [32] (map frag_text parts)),
                     [ListTranscripts video_id,
                       FetchTrack (language_code transcript) (is_generated transcript)]))))"

section \<open>The script composer\<close>

definition user_prompt :: "pystr \<Rightarrow> pystr" where
  "user_prompt transcript_text =
     of_ascii ''If the transcript is in English, translate and interpret it into Korean. '' @
     of_ascii ''Summarize and craft the Morning Crema script based on the transcript below:'' @
     [10, 10] @ transcript_text"

definition chat_request_of :: "env \<Rightarrow> pystr \<Rightarrow> chat_request" where
  "chat_request_of e transcript_text =
     \<lparr>chat_model = of_ascii ''gpt-4o'',
      messages = [(of_ascii ''system'', system_prompt e),
                  (of_ascii ''user'', user_prompt transcript_text)],
      temperature = 4 / 10\<rparr>"

text \<open>
  \<^verbatim>\<open>create_chat_completion\<close>; \<open>key\<close> is the global \<^verbatim>\<open>openai.api_key\<close>, which line 149 has
  set. The result of either call is the content of the first choice's message.
\<close>

definition create_chat_completion ::
  "env \<Rightarrow> pystr \<Rightarrow> pystr \<Rightarrow> (py_exception + pystr) \<times> remote_call list" where
  "create_chat_completion e key transcript_text =
     (let request = chat_request_of e transcript_text
      in if has_ChatCompletion e
         then (legacy_chat_create e key request, [ChatCreate ModuleLevel key request])
         else (client_chat_create e key request, [ChatCreate ClientObject key request]))"

section \<open>The audio synthesizer\<close>

definition speech_request_of :: "pystr option \<Rightarrow> speech_request" where
  "speech_request_of script_arg =
     \<lparr>speech_model = of_ascii ''tts-1-hd'', voice = of_ascii ''onyx'', speed = 11 / 10,
      speech_input = script_arg\<rparr>"

text \<open>Lines 113 to 117: \<^verbatim>\<open>read\<close> is looked for first, then \<^verbatim>\<open>content\<close>.\<close>

definition normalize_audio :: "audio_response \<Rightarrow> py_exception + audio_value" where
  "normalize_audio audio_response =
     (case read_attr audio_response of
        Some r \<Rightarrow> (case r of Inl x \<Rightarrow> Inl x | Inr b \<Rightarrow> Inr (AudioBytes b))
      | None \<Rightarrow>
          (case content_attr audio_response of
             Some b \<Rightarrow> Inr (AudioBytes b)
           | None \<Rightarrow> Inr (AudioObject audio_response)))"

text \<open>
  \<^verbatim>\<open>create_tts_audio\<close>; its argument is the Python value the caller passes, \<open>None\<close> when
  that value is \<^verbatim>\<open>None\<close>.
\<close>

definition create_tts_audio ::
  "env \<Rightarrow> pystr \<Rightarrow> pystr option \<Rightarrow> (py_exception + audio_value) \<times> remote_call list" where
  "create_tts_audio e key script_arg =
     (let request = speech_request_of script_arg;
          shape = (if has_audio_speech e then ModuleLevel else ClientObject);
          answer = (if has_audio_speech e then module_speech_create e key request
                    else client_speech_create e key request)
      in (case answer of
            Inl x \<Rightarrow> Inl x
          | Inr audio_response \<Rightarrow> normalize_audio audio_response,
          [SpeechCreate shape key request]))"

section \<open>The page: session state, the two buttons, the pipeline\<close>

text \<open>
  \<^verbatim>\<open>st.session_state\<close> with its three keys. The text input of line 137 has the key
  \<^verbatim>\<open>video_url\<close>, so the URL the user typed is the field \<open>video_url\<close> of the session.
\<close>

record session =
  script :: "pystr option"
  audio :: "audio_value option"
  video_url :: pystr

text \<open>Lines 37 to 42: the session of a page just opened.\<close>

definition initial_session :: session where
  "initial_session = \<lparr>script = None, audio = None, video_url = []\<rparr>"

text \<open>
  What \<^verbatim>\<open>st.error\<close> shows: the three validation messages of lines 145, 147 and 152,
  the transcript message of line 162 and the generic message of line 164, the last two
  with the exception they print.
\<close>

datatype ui_error =
  MissingApiKey | MissingUrl | InvalidUrl
| TranscriptMessage py_exception | GenericMessage py_exception

text \<open>The two \<^verbatim>\<open>except\<close> clauses of lines 161 to 164.\<close>

fun handle_exception :: "py_exception \<Rightarrow> ui_error" where
  "handle_exception VideoUnavailable = TranscriptMessage VideoUnavailable"
| "handle_exception TranscriptsDisabled = TranscriptMessage TranscriptsDisabled"
| "handle_exception NoTranscriptFound = TranscriptMessage NoTranscriptFound"
| "handle_exception (OtherException m) = GenericMessage (OtherException m)"

text \<open>
  Lines 143 to 164, the block \<^verbatim>\<open>if brew:\<close>. It returns the session, the errors shown and
  the remote calls made, in order. Line 158 stores the script in the session and line 160
  reads it from there.
\<close>

definition brew_handler ::
  "env \<Rightarrow> pystr \<Rightarrow> session \<Rightarrow> session \<times> ui_error list \<times> remote_call list" where
  "brew_handler e api_key st =
     (if api_key = [] then (st, [MissingApiKey], [])
      else if video_url st = [] then (st, [MissingUrl], [])
      else
        (case extract_video_id (unicode_alnum e) (video_url st) of
           None \<Rightarrow> (st, [InvalidUrl], [])
         | Some video_id \<Rightarrow>
             if video_id = [] then (st, [InvalidUrl], [])
             else
               (case fetch_transcript e video_id of
                  (Inl x, c1) \<Rightarrow> (st, [handle_exception x], c1)
                | (Inr transcript_text, c1) \<Rightarrow>
                    (case create_chat_completion e api_key transcript_text of
                       (Inl x, c2) \<Rightarrow> (st, [handle_exception x], c1 @ c2)
                     | (Inr s, c2) \<Rightarrow>
                         (let st1 = st\<lparr>script := Some s\<rparr>
                          in case create_tts_audio e api_key (script st1) of
                               (Inl x, c3) \<Rightarrow> (st1, [handle_exception x], c1 @ c2 @ c3)
                             | (Inr a, c3) \<Rightarrow> (st1\<lparr>audio := Some a\<rparr>, [], c1 @ c2 @ c3))))))"

text \<open>Lines 131 to 134, the block \<^verbatim>\<open>if reset:\<close> up to the rerun.\<close>

definition reset_handler :: "session \<Rightarrow> session" where
  "reset_handler st = st\<lparr>script := None, audio := None, video_url := []\<rparr>"

text \<open>
  Lines 166 to 172: the script is shown when it is a non-empty string, the audio when it
  is truthy (a non-empty byte string, or an object).
\<close>

definition shown_script :: "session \<Rightarrow> pystr option" where
  "shown_script st =
     (case script st of
        None \<Rightarrow> None
      | Some s \<Rightarrow> if s = [] then None else Some s)"

definition shown_audio :: "session \<Rightarrow> audio_value option" where
  "shown_audio st =
     (case audio st of
        None \<Rightarrow> None
      | Some (AudioBytes b) \<Rightarrow> if b = [] then None else Some (AudioBytes b)
      | Some (AudioObject r) \<Rightarrow> Some (AudioObject r))"

text \<open>
  One run of the page. Streamlit reports at most one button as pressed in a run. After
  \<^verbatim>\<open>st.rerun()\<close> the page runs again from the top with no button pressed, which
  changes nothing in the session.
\<close>

datatype click = Brew | Reset | NoClick

record page =
  page_session :: session
  page_errors :: "ui_error list"
  page_calls :: "remote_call list"
  page_script :: "pystr option"
  page_audio :: "audio_value option"

definition render :: "session \<Rightarrow> ui_error list \<Rightarrow> remote_call list \<Rightarrow> page" where
  "render st errs cs =
     \<lparr>page_session = st, page_errors = errs, page_calls = cs,
      page_script = shown_script st, page_audio = shown_audio st\<rparr>"

definition run_page :: "env \<Rightarrow> pystr \<Rightarrow> click \<Rightarrow> session \<Rightarrow> page" where
  "run_page e api_key c st =
     (case c of
        Reset \<Rightarrow> render (reset_handler st) [] []
      | Brew \<Rightarrow> (case brew_handler e api_key st of (st', errs, cs) \<Rightarrow> render st' errs cs)
      | NoClick \<Rightarrow> render st [] [])"

section \<open>Notions of the claims\<close>

text \<open>A language has a track in a list when either dictionary has one for it.\<close>

definition has_track :: "transcript_list \<Rightarrow> pystr \<Rightarrow> bool" where
  "has_track trs l = (manually_created trs l \<noteq> None \<or> generated trs l \<noteq> None)"

text \<open>The remote calls by the stage that makes them.\<close>

fun transcript_call :: "remote_call \<Rightarrow> bool" where
  "transcript_call (ListTranscripts v) = True"
| "transcript_call (FetchTrack l g) = True"
| "transcript_call (ChatCreate sh k r) = False"
| "transcript_call (SpeechCreate sh k r) = False"

fun generation_call :: "remote_call \<Rightarrow> bool" where
  "generation_call (ChatCreate sh k r) = True"
| "generation_call (ListTranscripts v) = False"
| "generation_call (FetchTrack l g) = False"
| "generation_call (SpeechCreate sh k r) = False"

fun synthesis_call :: "remote_call \<Rightarrow> bool" where
  "synthesis_call (SpeechCreate sh k r) = True"
| "synthesis_call (ListTranscripts v) = False"
| "synthesis_call (FetchTrack l g) = False"
| "synthesis_call (ChatCreate sh k r) = False"

section \<open>Concrete inputs\<close>

text \<open>
  An English track with four fragments, two of them with the same text, and a Korean
  track of one fragment (two Hangul syllables); synthesis responses with both
  \<^verbatim>\<open>read\<close> and \<^verbatim>\<open>content\<close>, with \<^verbatim>\<open>content\<close> only, and with neither; a world whose
  transcript service knows the one video \<^verbatim>\<open>abcdEFGH12_\<close>, with the client-object chat
  call and the module-level speech call; track lists for that video; and the session of
  a user who has typed the video's URL.
\<close>

definition demo_parts :: "fragment list" where
  "demo_parts =
     [\<lparr>frag_text = of_ascii ''Hello world'', frag_start = 0, frag_duration = 3 / 2\<rparr>,
      \<lparr>frag_text = of_ascii ''this is'', frag_start = 3 / 2, frag_duration = 1\<rparr>,
      \<lparr>frag_text = of_ascii ''this is'', frag_start = 5 / 2, frag_duration = 1\<rparr>,
      \<lparr>frag_text = of_ascii ''news'', frag_start = 7 / 2, frag_duration = 2\<rparr>]"

definition korean_parts :: "fragment list" where
  "korean_parts = [\<lparr>frag_text = [50504, 45397], frag_start = 0, frag_duration = 1\<rparr>]"

definition demo_track :: "pystr \<Rightarrow> bool \<Rightarrow> fragment list \<Rightarrow> track" where
  "demo_track l g ps = \<lparr>language_code = l, is_generated = g, track_fetch = Inr ps\<rparr>"

definition demo_response :: audio_response where
  "demo_response =
     \<lparr>read_attr = Some (Inr [73, 68, 51]), content_attr = Some [0], response_id = 7\<rparr>"

definition content_response :: audio_response where
  "content_response = \<lparr>read_attr = None, content_attr = Some [73, 68], response_id = 8\<rparr>"

definition bare_response :: audio_response where
  "bare_response = \<lparr>read_attr = None, content_attr = None, response_id = 9\<rparr>"

definition demo_env :: "transcript_list \<Rightarrow> env" where
  "demo_env trs =
     \<lparr>unicode_alnum = unicode_sample,
      system_prompt = of_ascii ''persona'',
      list_transcripts =
        (\<lambda>v. if v = of_ascii ''abcdEFGH12_'' then Inr trs else Inl VideoUnavailable),
      has_ChatCompletion = False,
      legacy_chat_create = (\<lambda>k r. Inl (OtherException (of_ascii ''removed''))),
      client_chat_create = (\<lambda>k r. Inr (of_ascii ''briefing'')),
      has_audio_speech = True,
      module_speech_create = (\<lambda>k r. Inr demo_response),
      client_speech_create = (\<lambda>k r. Inl (OtherException (of_ascii ''unused'')))\<rparr>"

definition english_only :: transcript_list where
  "english_only =
     \<lparr>manually_created = [of_ascii ''en'' \<mapsto> demo_track (of_ascii ''en'') False demo_parts],
      generated = Map.empty\<rparr>"

definition generated_korean_only :: transcript_list where
  "generated_korean_only =
     \<lparr>manually_created = Map.empty,
      generated = [of_ascii ''ko'' \<mapsto> demo_track (of_ascii ''ko'') True korean_parts]\<rparr>"

definition english_and_generated_korean :: transcript_list where
  "english_and_generated_korean =
     \<lparr>manually_created = [of_ascii ''en'' \<mapsto> demo_track (of_ascii ''en'') False demo_parts],
      generated = [of_ascii ''ko'' \<mapsto> demo_track (of_ascii ''ko'') True korean_parts]\<rparr>"

definition french_only :: transcript_list where
  "french_only =
     \<lparr>manually_created = [of_ascii ''fr'' \<mapsto> demo_track (of_ascii ''fr'') False demo_parts],
      generated = Map.empty\<rparr>"

definition demo_session :: session where
  "demo_session =
     \<lparr>script = None, audio = None,
      video_url = of_ascii ''https://www.youtube.com/watch?v=abcdEFGH12_''\<rparr>"

section \<open>The extractor: what a search finds\<close>

lemma match_here_Some:
  "match_here uni lit s = Some g \<Longrightarrow>
     length g = 11 \<and> list_all (id_char uni) g \<and> (\<exists>post. s = lit @ g @ post)"
proof -
  assume h: "match_here uni lit s = Some g"
  then have g: "g = take 11 (drop (length lit) s)" and l: "take (length lit) s = lit"
    and n: "length g = 11" and a: "list_all (id_char uni) g"
    by (auto simp: match_here_def Let_def split: if_splits)
  have "s = take (length lit) s @ take 11 (drop (length lit) s) @ drop 11 (drop (length lit) s)"
    by (simp only: append_take_drop_id)
  with g l have "s = lit @ g @ drop 11 (drop (length lit) s)" by simp
  with n a show ?thesis by blast
qed

lemma match_here_append:
  "length g = 11 \<Longrightarrow> list_all (id_char uni) g \<Longrightarrow> match_here uni lit (lit @ g @ post) = Some g"
  by (simp add: match_here_def)

lemma match_here_iff:
  "match_here uni lit s = Some g \<longleftrightarrow>
     length g = 11 \<and> list_all (id_char uni) g \<and> (\<exists>post. s = lit @ g @ post)"
  using match_here_Some match_here_append by blast

lemma shape_occurs_iff:
  "shape_occurs uni url lit i X \<longleftrightarrow> i \<le> length url \<and> match_here uni lit (drop i url) = Some X"
proof
  assume "shape_occurs uni url lit i X"
  then obtain pre post where t: "length X = 11" "list_all (id_char uni) X"
    and u: "url = pre @ lit @ X @ post" and i: "length pre = i"
    by (auto simp: shape_occurs_def)
  from u i have "drop i url = lit @ X @ post" by simp
  with t u i show "i \<le> length url \<and> match_here uni lit (drop i url) = Some X"
    by (simp add: match_here_append)
next
  assume h: "i \<le> length url \<and> match_here uni lit (drop i url) = Some X"
  then obtain post where t: "length X = 11" "list_all (id_char uni) X"
    and d: "drop i url = lit @ X @ post"
    using match_here_Some by blast
  have "url = take i url @ drop i url" by simp
  with d have "url = take i url @ lit @ X @ post" by simp
  moreover from h have "length (take i url) = i" by simp
  ultimately show "shape_occurs uni url lit i X"
    using t unfolding shape_occurs_def by blast
qed

lemma re_search_Some_iff:
  "re_search uni lit s = Some g \<longleftrightarrow>
     (\<exists>i. shape_occurs uni s lit i g \<and> (\<forall>j X. shape_occurs uni s lit j X \<longrightarrow> i \<le> j))"
proof (induction s)
  case Nil
  show ?case by (auto simp: shape_occurs_iff)
next
  case (Cons c cs)
  show ?case
  proof (cases "match_here uni lit (c # cs)")
    case (Some g')
    then have 0: "shape_occurs uni (c # cs) lit 0 g'" by (simp add: shape_occurs_iff)
    show ?thesis
    proof
      assume "re_search uni lit (c # cs) = Some g"
      with Some have "g' = g" by simp
      with 0 show "\<exists>i. shape_occurs uni (c # cs) lit i g \<and>
          (\<forall>j X. shape_occurs uni (c # cs) lit j X \<longrightarrow> i \<le> j)"
        by (intro exI[of _ 0]) simp
    next
      assume "\<exists>i. shape_occurs uni (c # cs) lit i g \<and>
          (\<forall>j X. shape_occurs uni (c # cs) lit j X \<longrightarrow> i \<le> j)"
      then obtain i where i: "shape_occurs uni (c # cs) lit i g"
        and m: "\<forall>j X. shape_occurs uni (c # cs) lit j X \<longrightarrow> i \<le> j" by blast
      from m 0 have "i = 0" by fastforce
      with i Some have "g = g'" by (simp add: shape_occurs_iff)
      with Some show "re_search uni lit (c # cs) = Some g" by simp
    qed
  next
    case None
    have sh: "shape_occurs uni (c # cs) lit j X \<longleftrightarrow> (\<exists>k. j = Suc k \<and> shape_occurs uni cs lit k X)"
      for j X
      using None by (cases j) (auto simp: shape_occurs_iff)
    have "re_search uni lit (c # cs) = Some g \<longleftrightarrow> re_search uni lit cs = Some g"
      using None by simp
    also have "\<dots> \<longleftrightarrow> (\<exists>i. shape_occurs uni cs lit i g \<and>
          (\<forall>j X. shape_occurs uni cs lit j X \<longrightarrow> i \<le> j))"
      by (rule Cons.IH)
    also have "\<dots> \<longleftrightarrow> (\<exists>i. shape_occurs uni (c # cs) lit i g \<and>
          (\<forall>j X. shape_occurs uni (c # cs) lit j X \<longrightarrow> i \<le> j))"
      unfolding sh by (auto; (metis Suc_le_mono)?)
    finally show ?thesis .
  qed
qed

lemma re_search_None_iff:
  "re_search uni lit s = None \<longleftrightarrow> (\<forall>j X. \<not> shape_occurs uni s lit j X)"
proof (induction s)
  case Nil
  show ?case by (auto simp: shape_occurs_iff)
next
  case (Cons c cs)
  show ?case
  proof (cases "match_here uni lit (c # cs)")
    case (Some g')
    then have "shape_occurs uni (c # cs) lit 0 g'" by (simp add: shape_occurs_iff)
    with Some show ?thesis by auto
  next
    case None
    have sh: "shape_occurs uni (c # cs) lit j X \<longleftrightarrow> (\<exists>k. j = Suc k \<and> shape_occurs uni cs lit k X)"
      for j X
      using None by (cases j) (auto simp: shape_occurs_iff)
    show ?thesis using None Cons.IH unfolding sh by auto
  qed
qed


lemma first_match_Some_iff:
  "first_match uni ps url = Some g \<longleftrightarrow>
     (\<exists>lit\<in>set ps. re_search uni lit url = Some g \<and>
        (\<forall>lit'\<in>set (takeWhile (\<lambda>p. p \<noteq> lit) ps). re_search uni lit' url = None))"
proof (induction ps)
  case Nil
  show ?case by simp
next
  case (Cons p ps)
  show ?case
  proof (cases "re_search uni p url")
    case None
    have tw: "set (takeWhile (\<lambda>q. q \<noteq> lit) (p # ps)) =
        insert p (set (takeWhile (\<lambda>q. q \<noteq> lit) ps))"
      if "re_search uni lit url = Some g" for lit
    proof -
      from that None have "p \<noteq> lit" by auto
      then show ?thesis by simp
    qed
    have "first_match uni (p # ps) url = Some g \<longleftrightarrow> first_match uni ps url = Some g"
      using None by simp
    also have "\<dots> \<longleftrightarrow> (\<exists>lit\<in>set ps. re_search uni lit url = Some g \<and>
        (\<forall>lit'\<in>set (takeWhile (\<lambda>p. p \<noteq> lit) ps). re_search uni lit' url = None))"
      by (rule Cons.IH)
    also have "\<dots> \<longleftrightarrow> (\<exists>lit\<in>set ps. re_search uni lit url = Some g \<and>
        (\<forall>lit'\<in>set (takeWhile (\<lambda>p. p \<noteq> lit) (p # ps)). re_search uni lit' url = None))"
    proof (rule bex_cong [OF refl])
      fix lit
      show "(re_search uni lit url = Some g \<and>
          (\<forall>lit'\<in>set (takeWhile (\<lambda>p. p \<noteq> lit) ps). re_search uni lit' url = None)) \<longleftrightarrow>
        (re_search uni lit url = Some g \<and>
          (\<forall>lit'\<in>set (takeWhile (\<lambda>p. p \<noteq> lit) (p # ps)). re_search uni lit' url = None))"
      proof (cases "re_search uni lit url = Some g")
        case True
        with tw None show ?thesis by (simp del: takeWhile.simps)
      next
        case False
        then show ?thesis by simp
      qed
    qed
    also have "\<dots> \<longleftrightarrow> (\<exists>lit\<in>set (p # ps). re_search uni lit url = Some g \<and>
        (\<forall>lit'\<in>set (takeWhile (\<lambda>p. p \<noteq> lit) (p # ps)). re_search uni lit' url = None))"
      using None by (simp del: takeWhile.simps)
    finally show ?thesis .
  next
    case (Some g')
    then show ?thesis by auto
  qed
qed

lemma first_match_None_iff:
  "first_match uni ps url = None \<longleftrightarrow> (\<forall>lit\<in>set ps. re_search uni lit url = None)"
  by (induction ps) (auto split: option.splits)

lemma extract_video_id_Some_iff:
  "extract_video_id uni url = Some X \<longleftrightarrow>
     (\<exists>lit i. lit \<in> set patterns \<and> shape_occurs uni url lit i X \<and> selected uni url lit i)"
  unfolding extract_video_id_def first_match_Some_iff re_search_Some_iff re_search_None_iff
    selected_def
  by blast

lemma extract_video_id_None_iff:
  "extract_video_id uni url = None \<longleftrightarrow>
     (\<forall>lit j X. lit \<in> set patterns \<longrightarrow> \<not> shape_occurs uni url lit j X)"
  unfolding extract_video_id_def first_match_None_iff re_search_None_iff
  by blast

lemma id_char_ascii: "id_char uni c \<Longrightarrow> c < 128 \<Longrightarrow> url_safe c"
  by (simp add: id_char_def word_char_def url_safe_def)

lemma url_safe_id_char: "url_safe c \<Longrightarrow> id_char uni c"
  by (auto simp: id_char_def word_char_def url_safe_def ascii_word_def)

lemma selectedI:
  assumes "list_all (\<lambda>lit'. re_search uni lit' url = None) (takeWhile (\<lambda>p. p \<noteq> lit) patterns)"
    and "list_all (\<lambda>j. match_here uni lit (drop j url) = None) [0..<i]"
  shows "selected uni url lit i"
proof -
  have "\<not> shape_occurs uni url lit' j X'"
    if "lit' \<in> set (takeWhile (\<lambda>p. p \<noteq> lit) patterns)" for lit' j X'
    using that assms(1) re_search_None_iff by (auto simp: list_all_iff)
  moreover have "i \<le> j" if "shape_occurs uni url lit j X'" for j X'
  proof (rule ccontr)
    assume "\<not> i \<le> j"
    with assms(2) have "match_here uni lit (drop j url) = None"
      by (simp add: list_all_iff)
    with that show False by (simp add: shape_occurs_iff)
  qed
  ultimately show ?thesis unfolding selected_def by blast
qed

section \<open>The extractor: the returned identifier\<close>

text \<open>
  Claim C2, as the code has it. An identifier \<^verbatim>\<open>extract_video_id\<close> returns has exactly
  eleven characters, each of the class \<^verbatim>\<open>[\w-]\<close> of the patterns, which beyond ASCII
  holds every alphanumeric character of Unicode. It matches \<^verbatim>\<open>[A-Za-z0-9_-]{11}\<close> when
  the URL is ASCII.
\<close>

theorem extract_video_id_token:
  "extract_video_id uni url = Some t \<Longrightarrow>
     length t = 11 \<and> list_all (id_char uni) t \<and>
     (list_all (\<lambda>c. c < 128) url \<longrightarrow> list_all url_safe t)"
proof -
  assume "extract_video_id uni url = Some t"
  then obtain lit i where "shape_occurs uni url lit i t"
    unfolding extract_video_id_Some_iff by blast
  then obtain pre post where n: "length t = 11" and a: "list_all (id_char uni) t"
    and u: "url = pre @ lit @ t @ post"
    unfolding shape_occurs_def by blast
  have "list_all url_safe t" if "list_all (\<lambda>c. c < 128) url"
  proof -
    from that u have "list_all (\<lambda>c. c < 128) t" by simp
    with a show ?thesis by (auto simp: list_all_iff intro: id_char_ascii)
  qed
  with n a show ?thesis by blast
qed

theorem extract_video_id_token_witness:
  "extract_video_id unicode_sample (of_ascii ''https://www.youtube.com/watch?v=abcdEFGH12_'')
     = Some (of_ascii ''abcdEFGH12_'') \<and>
   length (of_ascii ''abcdEFGH12_'') = 11 \<and>
   list_all (id_char unicode_sample) (of_ascii ''abcdEFGH12_'') \<and>
   list_all (\<lambda>c. c < 128) (of_ascii ''https://www.youtube.com/watch?v=abcdEFGH12_'') \<and>
   list_all url_safe (of_ascii ''abcdEFGH12_'')"
proof -
  have h: "extract_video_id unicode_sample
      (of_ascii ''https://www.youtube.com/watch?v=abcdEFGH12_'') = Some (of_ascii ''abcdEFGH12_'')"
    by code_simp
  have a: "list_all (\<lambda>c. c < 128) (of_ascii ''https://www.youtube.com/watch?v=abcdEFGH12_'')"
    by code_simp
  from extract_video_id_token [OF h] a h show ?thesis by blast
qed

text \<open>
  C2 as stated fails: after \<^verbatim>\<open>https://youtu.be/\<close>, eleven times the letter U+00E9 are
  returned as the identifier, and they are not of the class \<^verbatim>\<open>[A-Za-z0-9_-]\<close>.
\<close>

theorem extract_video_id_token_counterexample:
  "extract_video_id unicode_sample (of_ascii ''https://youtu.be/'' @ replicate 11 233)
     = Some (replicate 11 233) \<and>
   \<not> list_all url_safe (replicate 11 233)"
  by code_simp

text \<open>
  Claim C3, as the code has it. When the URL holds one of the three shapes and that
  occurrence is the one the search selects (no pattern listed earlier occurs in the URL,
  and the same pattern does not occur further left), \<^verbatim>\<open>extract_video_id\<close> returns
  exactly its token; the token's characters are those of \<^verbatim>\<open>[\w-]\<close>. When the URL holds
  none of the shapes, the result is \<^verbatim>\<open>None\<close>.
\<close>

theorem extract_video_id_shapes:
  "(lit \<in> set patterns \<and> shape_occurs uni url lit i X \<and> selected uni url lit i \<longrightarrow>
      extract_video_id uni url = Some X) \<and>
   ((\<forall>lit j X. lit \<in> set patterns \<longrightarrow> \<not> shape_occurs uni url lit j X) \<longrightarrow>
      extract_video_id uni url = None)"
  using extract_video_id_Some_iff extract_video_id_None_iff by blast

theorem extract_video_id_shapes_witness:
  "of_ascii ''youtu.be/'' \<in> set patterns \<and>
   shape_occurs unicode_sample (of_ascii ''https://youtu.be/dQw4w9WgXcQ'') (of_ascii ''youtu.be/'') 8
     (of_ascii ''dQw4w9WgXcQ'') \<and>
   selected unicode_sample (of_ascii ''https://youtu.be/dQw4w9WgXcQ'') (of_ascii ''youtu.be/'') 8 \<and>
   extract_video_id unicode_sample (of_ascii ''https://youtu.be/dQw4w9WgXcQ'')
     = Some (of_ascii ''dQw4w9WgXcQ'') \<and>
   \<not> (\<exists>lit j X. lit \<in> set patterns \<and>
        shape_occurs unicode_sample (of_ascii ''https://example.com/watch'') lit j X) \<and>
   extract_video_id unicode_sample (of_ascii ''https://example.com/watch'') = None"
proof -
  let ?url = "of_ascii ''https://youtu.be/dQw4w9WgXcQ''"
  let ?lit = "of_ascii ''youtu.be/''"
  let ?none = "of_ascii ''https://example.com/watch''"
  have p: "?lit \<in> set patterns" by code_simp
  have "8 \<le> length ?url \<and>
      match_here unicode_sample ?lit (drop 8 ?url) = Some (of_ascii ''dQw4w9WgXcQ'')"
    by code_simp
  then have o: "shape_occurs unicode_sample ?url ?lit 8 (of_ascii ''dQw4w9WgXcQ'')"
    by (simp only: shape_occurs_iff)
  have s: "selected unicode_sample ?url ?lit 8"
    by (rule selectedI; code_simp)
  have n: "extract_video_id unicode_sample ?none = None" by code_simp
  have m: "\<not> (\<exists>lit j X. lit \<in> set patterns \<and> shape_occurs unicode_sample ?none lit j X)"
    using n extract_video_id_None_iff by blast
  from extract_video_id_shapes [of ?lit unicode_sample ?url 8 "of_ascii ''dQw4w9WgXcQ''"] p o s
  have e: "extract_video_id unicode_sample ?url = Some (of_ascii ''dQw4w9WgXcQ'')" by blast
  from p o s e m n show ?thesis by blast
qed

text \<open>
  C3 as stated fails: this URL holds the shape \<^verbatim>\<open>shorts/AAAAAAAAAAA\<close>, and the result
  is the token after \<^verbatim>\<open>v=\<close>, the pattern tried first.
\<close>

theorem extract_video_id_shapes_counterexample:
  "of_ascii ''shorts/'' \<in> set patterns \<and>
   length (of_ascii ''AAAAAAAAAAA'') = 11 \<and>
   list_all url_safe (of_ascii ''AAAAAAAAAAA'') \<and>
   extract_video_id unicode_sample
     (of_ascii ''https://www.youtube.com/'' @ of_ascii ''shorts/'' @ of_ascii ''AAAAAAAAAAA'' @
      of_ascii ''?v=BBBBBBBBBBB'') = Some (of_ascii ''BBBBBBBBBBB'') \<and>
   of_ascii ''BBBBBBBBBBB'' \<noteq> of_ascii ''AAAAAAAAAAA''"
  by code_simp

text \<open>
  Claim C9, as the code has it. When a pattern's literal is followed by a run of more than
  eleven URL-safe characters, \<^verbatim>\<open>extract_video_id\<close> does not return \<^verbatim>\<open>None\<close>, and it
  returns the first eleven characters of that run when that occurrence is the one the
  search selects.
\<close>

theorem extract_video_id_long_run:
  assumes "lit \<in> set patterns" and "url = pre @ lit @ run @ post"
    and "11 < length run" and "list_all url_safe run"
  shows "extract_video_id uni url \<noteq> None \<and>
    (selected uni url lit (length pre) \<longrightarrow> extract_video_id uni url = Some (take 11 run))"
proof -
  have "url = pre @ lit @ take 11 run @ (drop 11 run @ post)"
    using assms(2) by simp
  moreover have "length (take 11 run) = 11" using assms(3) by simp
  moreover have "list_all (id_char uni) (take 11 run)"
    using assms(4) by (auto simp: list_all_iff dest: in_set_takeD intro: url_safe_id_char)
  ultimately have s: "shape_occurs uni url lit (length pre) (take 11 run)"
    unfolding shape_occurs_def by blast
  with assms(1) have "extract_video_id uni url \<noteq> None"
    using extract_video_id_None_iff by blast
  moreover have "extract_video_id uni url = Some (take 11 run)"
    if "selected uni url lit (length pre)"
    using that s assms(1) extract_video_id_Some_iff by blast
  ultimately show ?thesis by blast
qed

theorem extract_video_id_long_run_witness:
  "of_ascii ''v='' \<in> set patterns \<and>
   11 < length (of_ascii ''abcdEFGH12_X'') \<and>
   list_all url_safe (of_ascii ''abcdEFGH12_X'') \<and>
   selected unicode_sample
     (of_ascii ''https://www.youtube.com/watch?'' @ of_ascii ''v='' @ of_ascii ''abcdEFGH12_X'' @
      of_ascii ''&t=1s'') (of_ascii ''v='') (length (of_ascii ''https://www.youtube.com/watch?'')) \<and>
   extract_video_id unicode_sample
     (of_ascii ''https://www.youtube.com/watch?'' @ of_ascii ''v='' @ of_ascii ''abcdEFGH12_X'' @
      of_ascii ''&t=1s'') = Some (of_ascii ''abcdEFGH12_'')"
proof -
  let ?pre = "of_ascii ''https://www.youtube.com/watch?''"
  let ?lit = "of_ascii ''v=''"
  let ?run = "of_ascii ''abcdEFGH12_X''"
  let ?post = "of_ascii ''&t=1s''"
  have p: "?lit \<in> set patterns" by code_simp
  have l: "11 < length ?run" by code_simp
  have a: "list_all url_safe ?run" by code_simp
  have s: "selected unicode_sample (?pre @ ?lit @ ?run @ ?post) ?lit (length ?pre)"
    by (rule selectedI; code_simp)
  have t: "take 11 ?run = of_ascii ''abcdEFGH12_''" by code_simp
  from extract_video_id_long_run [OF p refl l a, of unicode_sample ?pre ?post] s t
  have "extract_video_id unicode_sample (?pre @ ?lit @ ?run @ ?post) = Some (of_ascii ''abcdEFGH12_'')"
    by simp
  with p l a s show ?thesis by blast
qed

text \<open>
  C9 as stated fails: \<^verbatim>\<open>youtu.be/\<close> is followed by twelve URL-safe characters here, and
  the result is the token after \<^verbatim>\<open>v=\<close>, not the first eleven of that run.
\<close>

theorem extract_video_id_long_run_counterexample:
  "of_ascii ''youtu.be/'' \<in> set patterns \<and>
   11 < length (of_ascii ''AAAAAAAAAAAA'') \<and>
   list_all url_safe (of_ascii ''AAAAAAAAAAAA'') \<and>
   extract_video_id unicode_sample
     (of_ascii ''https://'' @ of_ascii ''youtu.be/'' @ of_ascii ''AAAAAAAAAAAA'' @
      of_ascii ''?v=BBBBBBBBBBB'') = Some (of_ascii ''BBBBBBBBBBB'') \<and>
   of_ascii ''BBBBBBBBBBB'' \<noteq> take 11 (of_ascii ''AAAAAAAAAAAA'')"
  by code_simp

section \<open>The retriever and the pipeline: auxiliary facts\<close>

lemma lib_find_two:
  "lib_find_transcript ls [m, g] =
     (case find (\<lambda>l. m l \<noteq> None \<or> g l \<noteq> None) ls of
        None \<Rightarrow> Inl NoTranscriptFound
      | Some l \<Rightarrow> (case m l of Some t \<Rightarrow> Inr t | None \<Rightarrow> (case g l of Some t \<Rightarrow> Inr t | None \<Rightarrow> Inl NoTranscriptFound)))"
  by (induction ls) (auto split: option.splits)

lemma lib_find_one_None:
  "\<forall>l\<in>set ls. g l = None \<Longrightarrow> lib_find_transcript ls [g] = Inl NoTranscriptFound"
  by (induction ls) auto

lemma find_None_fallback:
  assumes "find (has_track trs) preferred_languages = None"
  shows "find_generated_transcript trs fallback_languages = Inl NoTranscriptFound"
proof -
  from assms have "\<forall>l\<in>set preferred_languages. \<not> has_track trs l"
    by (simp add: find_None_iff)
  moreover have "set fallback_languages \<subseteq> set preferred_languages"
    by (simp add: fallback_languages_def preferred_languages_def)
  ultimately have "\<forall>l\<in>set fallback_languages. generated trs l = None"
    by (auto simp: has_track_def)
  then show ?thesis
    unfolding find_generated_transcript_def by (rule lib_find_one_None)
qed

lemma find_transcript_eq:
  "find_transcript trs ls =
     (case find (has_track trs) ls of
        None \<Rightarrow> Inl NoTranscriptFound
      | Some l \<Rightarrow>
          (case manually_created trs l of
             Some t \<Rightarrow> Inr t
           | None \<Rightarrow> (case generated trs l of Some t \<Rightarrow> Inr t | None \<Rightarrow> Inl NoTranscriptFound)))"
proof -
  have "(\<lambda>l. manually_created trs l \<noteq> None \<or> generated trs l \<noteq> None) = has_track trs"
    by (simp add: has_track_def fun_eq_iff)
  then show ?thesis by (simp only: find_transcript_def lib_find_two)
qed

lemma select_transcript_eq:
  "select_transcript trs =
     (case find (has_track trs) preferred_languages of
        None \<Rightarrow> Inl NoTranscriptFound
      | Some l \<Rightarrow>
          (case manually_created trs l of
             Some t \<Rightarrow> Inr t
           | None \<Rightarrow> (case generated trs l of Some t \<Rightarrow> Inr t | None \<Rightarrow> Inl NoTranscriptFound)))"
proof (cases "find (has_track trs) preferred_languages")
  case None
  then have "find_transcript trs preferred_languages = Inl NoTranscriptFound"
    by (simp only: find_transcript_eq option.case)
  with None find_None_fallback [OF None] show ?thesis
    by (simp add: select_transcript_def)
next
  case (Some l)
  then have h: "has_track trs l" by (auto simp: find_Some_iff)
  from Some have "find_transcript trs preferred_languages =
      (case manually_created trs l of
             Some t \<Rightarrow> Inr t
           | None \<Rightarrow> (case generated trs l of Some t \<Rightarrow> Inr t | None \<Rightarrow> Inl NoTranscriptFound))"
    by (simp only: find_transcript_eq option.case)
  with Some h show ?thesis
    by (auto simp: select_transcript_def has_track_def split: option.splits)
qed

lemma join_str_closed:
  "join_str sep xs = (case xs of [] \<Rightarrow> [] | x # ys \<Rightarrow> x @ concat (map (\<lambda>y. sep @ y) ys))"
  by (induction sep xs rule: join_str.induct) simp_all

lemma join_str_length:
  "length (join_str sep xs) = sum_list (map length xs) + (length xs - 1) * length sep"
  by (induction sep xs rule: join_str.induct) simp_all

lemma fetch_transcript_Inr:
  assumes "fst (fetch_transcript e video_id) = Inr s"
  shows "\<exists>trs t parts. list_transcripts e video_id = Inr trs \<and> select_transcript trs = Inr t \<and>
     track_fetch t = Inr parts \<and> s = join_str [32] (map frag_text parts)"
  using assms by (auto simp: fetch_transcript_def split: sum.splits)

lemma fetch_transcript_calls: "list_all transcript_call (snd (fetch_transcript e video_id))"
  by (simp add: fetch_transcript_def split: sum.splits)

lemma create_chat_completion_calls:
  "list_all generation_call (snd (create_chat_completion e k t))"
  by (simp add: create_chat_completion_def Let_def)

lemma extract_empty: "extract_video_id uni [] = None"
  by (simp add: extract_video_id_def patterns_def match_here_def of_ascii_def)

section \<open>The retriever: which track, which text\<close>

text \<open>
  What lines 60 to 63 compute with this library: the track of the first language of
  \<^verbatim>\<open>[ko, en, en-US, en-GB]\<close> that has a track of either kind, and of that language the
  manually created track when there is one, the generated track otherwise.
\<close>

lemma fetch_transcript_selection:
  assumes "list_transcripts e video_id = Inr trs"
  shows
    "(find (has_track trs) preferred_languages = None \<longrightarrow>
        fst (fetch_transcript e video_id) = Inl NoTranscriptFound) \<and>
     (\<forall>l t. find (has_track trs) preferred_languages = Some l \<and>
        (manually_created trs l = Some t \<or>
         manually_created trs l = None \<and> generated trs l = Some t) \<longrightarrow>
        select_transcript trs = Inr t \<and>
        fst (fetch_transcript e video_id) =
          (case track_fetch t of
             Inl x \<Rightarrow> Inl x
           | Inr parts \<Rightarrow> Inr (join_str [32] (map frag_text parts))))"
proof -
  have f: "fst (fetch_transcript e video_id) =
      (case select_transcript trs of
         Inl x \<Rightarrow> Inl x
       | Inr t \<Rightarrow>
          (case track_fetch t of
             Inl x \<Rightarrow> Inl x
           | Inr parts \<Rightarrow> Inr (join_str [32] (map frag_text parts))))"
    using assms by (simp add: fetch_transcript_def split: sum.splits)
  show ?thesis
    unfolding f select_transcript_eq by (auto split: option.splits)
qed

text \<open>
  The branch \<^verbatim>\<open>except NoTranscriptFound\<close> of lines 62 and 63 never changes a result:
  whenever \<^verbatim>\<open>find_transcript\<close> raises, no language of the fallback list has a generated
  track, so \<^verbatim>\<open>find_generated_transcript\<close> raises too.
\<close>

lemma select_transcript_is_find_transcript:
  "select_transcript trs = find_transcript trs preferred_languages"
  by (simp only: select_transcript_eq find_transcript_eq)

text \<open>
  Claim C1 says that a human-authored track in the order \<^verbatim>\<open>[ko, en, en-US, en-GB]\<close> is
  tried first, that generated tracks come in only afterwards and only for
  \<^verbatim>\<open>[en, en-US, en-GB]\<close>, and that a video whose only track is an auto-generated Korean
  one makes \<^verbatim>\<open>fetch_transcript\<close> fail. The code, whose two lookups are written for that
  policy, does otherwise: for the video with only an auto-generated Korean track it
  returns that track's text, and for the video with a human-authored English track and an
  auto-generated Korean track it returns the text of the generated Korean track.
\<close>

theorem fetch_transcript_generated_korean:
  "manually_created generated_korean_only = Map.empty \<and>
   generated generated_korean_only =
     [of_ascii ''ko'' \<mapsto> demo_track (of_ascii ''ko'') True korean_parts] \<and>
   is_generated (demo_track (of_ascii ''ko'') True korean_parts) \<and>
   list_transcripts (demo_env generated_korean_only) (of_ascii ''abcdEFGH12_'')
     = Inr generated_korean_only \<and>
   fst (fetch_transcript (demo_env generated_korean_only) (of_ascii ''abcdEFGH12_''))
     = Inr [50504, 45397] \<and>
   manually_created english_and_generated_korean (of_ascii ''en'')
     = Some (demo_track (of_ascii ''en'') False demo_parts) \<and>
   list_transcripts (demo_env english_and_generated_korean) (of_ascii ''abcdEFGH12_'')
     = Inr english_and_generated_korean \<and>
   fst (fetch_transcript (demo_env english_and_generated_korean) (of_ascii ''abcdEFGH12_''))
     = Inr [50504, 45397]"
proof -
  have 1: "fst (fetch_transcript (demo_env generated_korean_only) (of_ascii ''abcdEFGH12_''))
     = Inr [50504, 45397]"
    by (simp add: fetch_transcript_def demo_env_def generated_korean_only_def
        select_transcript_def find_transcript_def preferred_languages_def of_ascii_def
        demo_track_def korean_parts_def)
  have 2: "fst (fetch_transcript (demo_env english_and_generated_korean)
      (of_ascii ''abcdEFGH12_'')) = Inr [50504, 45397]"
    by (simp add: fetch_transcript_def demo_env_def english_and_generated_korean_def
        select_transcript_def find_transcript_def preferred_languages_def of_ascii_def
        demo_track_def korean_parts_def)
  from 1 2 show ?thesis
    by (simp add: generated_korean_only_def english_and_generated_korean_def
        demo_track_def demo_env_def)
qed

text \<open>
  Claim C8. What \<^verbatim>\<open>fetch_transcript\<close> returns is made of the fragments of the selected
  track: the text of the first, then for each further fragment, in order, one space and
  its text. Every fragment is there (the length is the sum of the texts' lengths and one
  separator between neighbours), equal texts included, and nothing of the timestamps.
\<close>

theorem fetch_transcript_join:
  assumes "fst (fetch_transcript e video_id) = Inr s"
  shows "\<exists>trs t parts.
     list_transcripts e video_id = Inr trs \<and> select_transcript trs = Inr t \<and>
     track_fetch t = Inr parts \<and>
     s = (case parts of
            [] \<Rightarrow> []
          | p # ps \<Rightarrow> frag_text p @ concat (map (\<lambda>q. 32 # frag_text q) ps)) \<and>
     length s = sum_list (map (\<lambda>p. length (frag_text p)) parts) + (length parts - 1)"
proof -
  from fetch_transcript_Inr [OF assms]
  obtain trs t parts where l: "list_transcripts e video_id = Inr trs"
    and t: "select_transcript trs = Inr t" and p: "track_fetch t = Inr parts"
    and s: "s = join_str [32] (map frag_text parts)"
    by blast
  have "s = (case parts of
            [] \<Rightarrow> []
          | p # ps \<Rightarrow> frag_text p @ concat (map (\<lambda>q. 32 # frag_text q) ps))"
    unfolding s join_str_closed by (cases parts) (simp_all add: comp_def)
  moreover have "length s = sum_list (map (\<lambda>p. length (frag_text p)) parts) + (length parts - 1)"
    unfolding s join_str_length by (simp add: comp_def)
  ultimately show ?thesis using l t p by blast
qed

theorem fetch_transcript_join_witness:
  "fst (fetch_transcript (demo_env english_only) (of_ascii ''abcdEFGH12_''))
     = Inr (of_ascii ''Hello world this is this is news'') \<and>
   (\<exists>trs t parts.
     list_transcripts (demo_env english_only) (of_ascii ''abcdEFGH12_'') = Inr trs \<and>
     select_transcript trs = Inr t \<and> track_fetch t = Inr parts \<and>
     of_ascii ''Hello world this is this is news'' =
       (case parts of
          [] \<Rightarrow> []
        | p # ps \<Rightarrow> frag_text p @ concat (map (\<lambda>q. 32 # frag_text q) ps)) \<and>
     length (of_ascii ''Hello world this is this is news'') =
       sum_list (map (\<lambda>p. length (frag_text p)) parts) + (length parts - 1))"
proof -
  have h: "fst (fetch_transcript (demo_env english_only) (of_ascii ''abcdEFGH12_''))
     = Inr (of_ascii ''Hello world this is this is news'')"
    by code_simp
  from fetch_transcript_join [OF h] h show ?thesis by blast
qed

section \<open>The synthesizer: the shape of the response\<close>

text \<open>
  Claim C10. Of the response of the synthesis call, \<^verbatim>\<open>create_tts_audio\<close> returns what
  \<^verbatim>\<open>read()\<close> gives when the response has \<^verbatim>\<open>read\<close>, whether or not it has \<^verbatim>\<open>content\<close>;
  the attribute \<^verbatim>\<open>content\<close> when it has only that; and the response object itself,
  with no error, when it has neither.
\<close>

theorem create_tts_audio_normalizes:
  assumes "(if has_audio_speech e then module_speech_create e key (speech_request_of a)
            else client_speech_create e key (speech_request_of a)) = Inr r"
  shows
    "(\<forall>b. read_attr r = Some (Inr b) \<longrightarrow> fst (create_tts_audio e key a) = Inr (AudioBytes b)) \<and>
     (\<forall>b. read_attr r = None \<and> content_attr r = Some b \<longrightarrow>
        fst (create_tts_audio e key a) = Inr (AudioBytes b)) \<and>
     (read_attr r = None \<and> content_attr r = None \<longrightarrow>
        fst (create_tts_audio e key a) = Inr (AudioObject r))"
  using assms by (simp add: create_tts_audio_def normalize_audio_def Let_def)

theorem create_tts_audio_normalizes_witness:
  "read_attr demo_response = Some (Inr [73, 68, 51]) \<and>
   content_attr demo_response = Some [0] \<and>
   fst (create_tts_audio (demo_env english_only) (of_ascii ''sk-1'') (Some (of_ascii ''briefing'')))
     = Inr (AudioBytes [73, 68, 51]) \<and>
   read_attr content_response = None \<and> content_attr content_response = Some [73, 68] \<and>
   fst (create_tts_audio
          ((demo_env english_only)\<lparr>module_speech_create := \<lambda>k r. Inr content_response\<rparr>)
          (of_ascii ''sk-1'') (Some (of_ascii ''briefing'')))
     = Inr (AudioBytes [73, 68]) \<and>
   read_attr bare_response = None \<and> content_attr bare_response = None \<and>
   fst (create_tts_audio
          ((demo_env english_only)\<lparr>module_speech_create := \<lambda>k r. Inr bare_response\<rparr>)
          (of_ascii ''sk-1'') (Some (of_ascii ''briefing'')))
     = Inr (AudioObject bare_response)"
proof -
  let ?k = "of_ascii ''sk-1''"
  let ?a = "Some (of_ascii ''briefing'')"
  let ?e1 = "demo_env english_only"
  let ?e2 = "(demo_env english_only)\<lparr>module_speech_create := \<lambda>k r. Inr content_response\<rparr>"
  let ?e3 = "(demo_env english_only)\<lparr>module_speech_create := \<lambda>k r. Inr bare_response\<rparr>"
  have s1: "(if has_audio_speech ?e1 then module_speech_create ?e1 ?k (speech_request_of ?a)
            else client_speech_create ?e1 ?k (speech_request_of ?a)) = Inr demo_response"
    by (simp add: demo_env_def)
  have s2: "(if has_audio_speech ?e2 then module_speech_create ?e2 ?k (speech_request_of ?a)
            else client_speech_create ?e2 ?k (speech_request_of ?a)) = Inr content_response"
    by (simp add: demo_env_def)
  have s3: "(if has_audio_speech ?e3 then module_speech_create ?e3 ?k (speech_request_of ?a)
            else client_speech_create ?e3 ?k (speech_request_of ?a)) = Inr bare_response"
    by (simp add: demo_env_def)
  have r1: "read_attr demo_response = Some (Inr [73, 68, 51])"
    and c1: "content_attr demo_response = Some [0]"
    by (simp_all add: demo_response_def)
  have r2: "read_attr content_response = None"
    and c2: "content_attr content_response = Some [73, 68]"
    by (simp_all add: content_response_def)
  have r3: "read_attr bare_response = None" and c3: "content_attr bare_response = None"
    by (simp_all add: bare_response_def)
  from create_tts_audio_normalizes [OF s1] r1
  have t1: "fst (create_tts_audio ?e1 ?k ?a) = Inr (AudioBytes [73, 68, 51])" by blast
  from create_tts_audio_normalizes [OF s2] r2 c2
  have t2: "fst (create_tts_audio ?e2 ?k ?a) = Inr (AudioBytes [73, 68])" by blast
  from create_tts_audio_normalizes [OF s3] r3 c3
  have t3: "fst (create_tts_audio ?e3 ?k ?a) = Inr (AudioObject bare_response)" by blast
  from r1 c1 t1 r2 c2 t2 r3 c3 t3 show ?thesis by simp
qed

section \<open>The pipeline: validation, success, failure, reset\<close>

lemma extract_video_id_nonempty: "extract_video_id uni url = Some v \<Longrightarrow> v \<noteq> []"
  unfolding extract_video_id_Some_iff shape_occurs_def by auto




lemma brew_handler_valid:
  assumes "api_key \<noteq> []" and "video_url st \<noteq> []"
    and "extract_video_id (unicode_alnum e) (video_url st) = Some video_id"
  shows "brew_handler e api_key st =
     (case fetch_transcript e video_id of
        (Inl x, c1) \<Rightarrow> (st, [handle_exception x], c1)
      | (Inr transcript_text, c1) \<Rightarrow>
          (case create_chat_completion e api_key transcript_text of
             (Inl x, c2) \<Rightarrow> (st, [handle_exception x], c1 @ c2)
           | (Inr s, c2) \<Rightarrow>
               (case create_tts_audio e api_key (Some s) of
                  (Inl x, c3) \<Rightarrow> (st\<lparr>script := Some s\<rparr>, [handle_exception x], c1 @ c2 @ c3)
                | (Inr a, c3) \<Rightarrow> (st\<lparr>script := Some s, audio := Some a\<rparr>, [], c1 @ c2 @ c3))))"
  using assms extract_video_id_nonempty [OF assms(3)]
  by (simp add: brew_handler_def Let_def split: prod.splits sum.splits)

lemma brew_handler_invalid:
  assumes "api_key = [] \<or> video_url st = [] \<or>
    extract_video_id (unicode_alnum e) (video_url st) = None"
  shows "brew_handler e api_key st =
     (st, [if api_key = [] then MissingApiKey
           else if video_url st = [] then MissingUrl else InvalidUrl], [])"
  using assms by (auto simp: brew_handler_def)


text \<open>
  Claim C4. With an empty credential, an empty URL, or a URL that yields no identifier,
  the brew handler makes no remote call at all, shows one of the three validation
  messages and leaves the session as it was. So a remote call is made only after all
  three checks have passed.
\<close>

theorem brew_validation:
  assumes "api_key = [] \<or> video_url st = [] \<or>
    extract_video_id (unicode_alnum e) (video_url st) = None"
  shows "\<exists>err. (err = MissingApiKey \<or> err = MissingUrl \<or> err = InvalidUrl) \<and>
     brew_handler e api_key st = (st, [err], []) \<and>
     page_calls (run_page e api_key Brew st) = [] \<and>
     page_errors (run_page e api_key Brew st) = [err] \<and>
     page_session (run_page e api_key Brew st) = st"
  using brew_handler_invalid [OF assms] by (auto simp: run_page_def render_def)

theorem brew_validation_witness:
  "(\<exists>err. (err = MissingApiKey \<or> err = MissingUrl \<or> err = InvalidUrl) \<and>
     brew_handler (demo_env english_only) [] demo_session = (demo_session, [err], []) \<and>
     page_calls (run_page (demo_env english_only) [] Brew demo_session) = [] \<and>
     page_errors (run_page (demo_env english_only) [] Brew demo_session) = [err] \<and>
     page_session (run_page (demo_env english_only) [] Brew demo_session) = demo_session) \<and>
   video_url initial_session = [] \<and>
   (\<exists>err. (err = MissingApiKey \<or> err = MissingUrl \<or> err = InvalidUrl) \<and>
     brew_handler (demo_env english_only) (of_ascii ''sk-1'') initial_session
       = (initial_session, [err], []) \<and>
     page_calls (run_page (demo_env english_only) (of_ascii ''sk-1'') Brew initial_session) = [] \<and>
     page_errors (run_page (demo_env english_only) (of_ascii ''sk-1'') Brew initial_session) = [err] \<and>
     page_session (run_page (demo_env english_only) (of_ascii ''sk-1'') Brew initial_session)
       = initial_session) \<and>
   extract_video_id (unicode_alnum (demo_env english_only))
     (video_url (initial_session\<lparr>video_url := of_ascii ''https://example.com/watch''\<rparr>)) = None \<and>
   (\<exists>err. (err = MissingApiKey \<or> err = MissingUrl \<or> err = InvalidUrl) \<and>
     brew_handler (demo_env english_only) (of_ascii ''sk-1'')
       (initial_session\<lparr>video_url := of_ascii ''https://example.com/watch''\<rparr>)
       = (initial_session\<lparr>video_url := of_ascii ''https://example.com/watch''\<rparr>, [err], []) \<and>
     page_calls (run_page (demo_env english_only) (of_ascii ''sk-1'') Brew
       (initial_session\<lparr>video_url := of_ascii ''https://example.com/watch''\<rparr>)) = [] \<and>
     page_errors (run_page (demo_env english_only) (of_ascii ''sk-1'') Brew
       (initial_session\<lparr>video_url := of_ascii ''https://example.com/watch''\<rparr>)) = [err] \<and>
     page_session (run_page (demo_env english_only) (of_ascii ''sk-1'') Brew
       (initial_session\<lparr>video_url := of_ascii ''https://example.com/watch''\<rparr>))
       = initial_session\<lparr>video_url := of_ascii ''https://example.com/watch''\<rparr>)"
proof -
  let ?e = "demo_env english_only"
  let ?k = "of_ascii ''sk-1''"
  let ?st = "initial_session\<lparr>video_url := of_ascii ''https://example.com/watch''\<rparr>"
  have h1: "([]::pystr) = [] \<or> video_url demo_session = [] \<or>
      extract_video_id (unicode_alnum ?e) (video_url demo_session) = None"
    by simp
  have u: "video_url initial_session = []"
    by (simp add: initial_session_def)
  then have h2: "?k = [] \<or> video_url initial_session = [] \<or>
      extract_video_id (unicode_alnum ?e) (video_url initial_session) = None"
    by simp
  have x: "extract_video_id (unicode_alnum ?e) (video_url ?st) = None"
    by code_simp
  then have h3: "?k = [] \<or> video_url ?st = [] \<or>
      extract_video_id (unicode_alnum ?e) (video_url ?st) = None"
    by simp
  from brew_validation [OF h1] brew_validation [OF h2] brew_validation [OF h3] u x
  show ?thesis by blast
qed



text \<open>
  Claim C6. After validation, a stage that raises ends the run. When the transcript stage
  raises, only transcript calls have been made; when the generation stage raises, no
  synthesis call has been made; in both cases the session is as before. When the
  synthesis stage raises, the composed script is in the session and the page shows it
  (when it is not the empty string). The message is the transcript message for
  \<^verbatim>\<open>VideoUnavailable\<close>, \<^verbatim>\<open>TranscriptsDisabled\<close> and \<^verbatim>\<open>NoTranscriptFound\<close>, and the
  generic message for every other exception.
\<close>

theorem brew_stage_failure:
  assumes "api_key \<noteq> []" and "video_url st \<noteq> []"
    and "extract_video_id (unicode_alnum e) (video_url st) = Some video_id"
  shows
    "(\<forall>x c1. fetch_transcript e video_id = (Inl x, c1) \<longrightarrow>
        brew_handler e api_key st = (st, [handle_exception x], c1) \<and>
        list_all transcript_call c1) \<and>
     (\<forall>t c1 x c2. fetch_transcript e video_id = (Inr t, c1) \<and>
        create_chat_completion e api_key t = (Inl x, c2) \<longrightarrow>
        brew_handler e api_key st = (st, [handle_exception x], c1 @ c2) \<and>
        list_all (\<lambda>c. \<not> synthesis_call c) (c1 @ c2)) \<and>
     (\<forall>t c1 s c2 x c3. fetch_transcript e video_id = (Inr t, c1) \<and>
        create_chat_completion e api_key t = (Inr s, c2) \<and>
        create_tts_audio e api_key (Some s) = (Inl x, c3) \<longrightarrow>
        brew_handler e api_key st = (st\<lparr>script := Some s\<rparr>, [handle_exception x], c1 @ c2 @ c3) \<and>
        page_script (run_page e api_key Brew st) = (if s = [] then None else Some s)) \<and>
     (\<forall>x. handle_exception x =
        (if x = VideoUnavailable \<or> x = TranscriptsDisabled \<or> x = NoTranscriptFound
         then TranscriptMessage x else GenericMessage x))"
proof -
  note b = brew_handler_valid [OF assms]
  have 1: "brew_handler e api_key st = (st, [handle_exception x], c1) \<and>
        list_all transcript_call c1"
    if "fetch_transcript e video_id = (Inl x, c1)" for x c1
    using that b fetch_transcript_calls [of e video_id] by simp
  have 2: "brew_handler e api_key st = (st, [handle_exception x], c1 @ c2) \<and>
        list_all (\<lambda>c. \<not> synthesis_call c) (c1 @ c2)"
    if "fetch_transcript e video_id = (Inr t, c1) \<and>
        create_chat_completion e api_key t = (Inl x, c2)" for t c1 x c2
  proof -
    have "list_all transcript_call c1" "list_all generation_call c2"
      using that fetch_transcript_calls [of e video_id]
        create_chat_completion_calls [of e api_key t] by simp_all
    moreover have "\<not> synthesis_call c" if "transcript_call c \<or> generation_call c" for c
      using that by (cases c) auto
    ultimately have "list_all (\<lambda>c. \<not> synthesis_call c) (c1 @ c2)"
      by (auto simp: list_all_iff)
    with that b show ?thesis by simp
  qed
  have 3: "brew_handler e api_key st =
          (st\<lparr>script := Some s\<rparr>, [handle_exception x], c1 @ c2 @ c3) \<and>
        page_script (run_page e api_key Brew st) = (if s = [] then None else Some s)"
    if "fetch_transcript e video_id = (Inr t, c1) \<and>
        create_chat_completion e api_key t = (Inr s, c2) \<and>
        create_tts_audio e api_key (Some s) = (Inl x, c3)" for t c1 s c2 x c3
    using that b by (simp add: run_page_def render_def shown_script_def)
  have 4: "handle_exception x =
        (if x = VideoUnavailable \<or> x = TranscriptsDisabled \<or> x = NoTranscriptFound
         then TranscriptMessage x else GenericMessage x)" for x
    by (cases x) simp_all
  from 1 2 3 4 show ?thesis by blast
qed

theorem brew_stage_failure_witness:
  "of_ascii ''sk-1'' \<noteq> [] \<and> video_url demo_session \<noteq> [] \<and>
   extract_video_id (unicode_alnum (demo_env english_only)) (video_url demo_session)
     = Some (of_ascii ''abcdEFGH12_'') \<and>
   fetch_transcript (demo_env english_only) (of_ascii ''abcdEFGH12_'') =
     (Inr (of_ascii ''Hello world this is this is news''),
      [ListTranscripts (of_ascii ''abcdEFGH12_''), FetchTrack (of_ascii ''en'') False]) \<and>
   create_chat_completion
     ((demo_env english_only)
        \<lparr>module_speech_create := \<lambda>k r. Inl (OtherException (of_ascii ''quota''))\<rparr>)
     (of_ascii ''sk-1'') (of_ascii ''Hello world this is this is news'') =
     (Inr (of_ascii ''briefing''),
      [ChatCreate ClientObject (of_ascii ''sk-1'')
         (chat_request_of (demo_env english_only)
            (of_ascii ''Hello world this is this is news''))]) \<and>
   create_tts_audio
     ((demo_env english_only)
        \<lparr>module_speech_create := \<lambda>k r. Inl (OtherException (of_ascii ''quota''))\<rparr>)
     (of_ascii ''sk-1'') (Some (of_ascii ''briefing'')) =
     (Inl (OtherException (of_ascii ''quota'')),
      [SpeechCreate ModuleLevel (of_ascii ''sk-1'')
         (speech_request_of (Some (of_ascii ''briefing'')))]) \<and>
   brew_handler
     ((demo_env english_only)
        \<lparr>module_speech_create := \<lambda>k r. Inl (OtherException (of_ascii ''quota''))\<rparr>)
     (of_ascii ''sk-1'') demo_session =
     (demo_session\<lparr>script := Some (of_ascii ''briefing'')\<rparr>,
      [GenericMessage (OtherException (of_ascii ''quota''))],
      [ListTranscripts (of_ascii ''abcdEFGH12_''), FetchTrack (of_ascii ''en'') False,
       ChatCreate ClientObject (of_ascii ''sk-1'')
         (chat_request_of (demo_env english_only)
            (of_ascii ''Hello world this is this is news'')),
       SpeechCreate ModuleLevel (of_ascii ''sk-1'')
         (speech_request_of (Some (of_ascii ''briefing'')))]) \<and>
   page_script (run_page
     ((demo_env english_only)
        \<lparr>module_speech_create := \<lambda>k r. Inl (OtherException (of_ascii ''quota''))\<rparr>)
     (of_ascii ''sk-1'') Brew demo_session) = Some (of_ascii ''briefing'') \<and>
   fetch_transcript (demo_env french_only) (of_ascii ''abcdEFGH12_'') =
     (Inl NoTranscriptFound, [ListTranscripts (of_ascii ''abcdEFGH12_'')]) \<and>
   brew_handler (demo_env french_only) (of_ascii ''sk-1'') demo_session =
     (demo_session, [TranscriptMessage NoTranscriptFound],
      [ListTranscripts (of_ascii ''abcdEFGH12_'')]) \<and>
   create_chat_completion
     ((demo_env english_only)
        \<lparr>client_chat_create := \<lambda>k r. Inl (OtherException (of_ascii ''auth''))\<rparr>)
     (of_ascii ''sk-1'') (of_ascii ''Hello world this is this is news'') =
     (Inl (OtherException (of_ascii ''auth'')),
      [ChatCreate ClientObject (of_ascii ''sk-1'')
         (chat_request_of (demo_env english_only)
            (of_ascii ''Hello world this is this is news''))]) \<and>
   brew_handler
     ((demo_env english_only)
        \<lparr>client_chat_create := \<lambda>k r. Inl (OtherException (of_ascii ''auth''))\<rparr>)
     (of_ascii ''sk-1'') demo_session =
     (demo_session, [GenericMessage (OtherException (of_ascii ''auth''))],
      [ListTranscripts (of_ascii ''abcdEFGH12_''), FetchTrack (of_ascii ''en'') False,
       ChatCreate ClientObject (of_ascii ''sk-1'')
         (chat_request_of (demo_env english_only)
            (of_ascii ''Hello world this is this is news''))])"
proof -
  let ?k = "of_ascii ''sk-1''"
  let ?v = "of_ascii ''abcdEFGH12_''"
  let ?t = "of_ascii ''Hello world this is this is news''"
  let ?s = "of_ascii ''briefing''"
  let ?e = "demo_env english_only"
  let ?e3 = "?e\<lparr>module_speech_create := \<lambda>k r. Inl (OtherException (of_ascii ''quota''))\<rparr>"
  let ?e2 = "?e\<lparr>client_chat_create := \<lambda>k r. Inl (OtherException (of_ascii ''auth''))\<rparr>"
  let ?e1 = "demo_env french_only"
  let ?c1 = "[ListTranscripts ?v, FetchTrack (of_ascii ''en'') False]"
  let ?c2 = "[ChatCreate ClientObject ?k (chat_request_of ?e ?t)]"
  let ?c3 = "[SpeechCreate ModuleLevel ?k (speech_request_of (Some ?s))]"
  have k: "?k \<noteq> []" by code_simp
  have u: "video_url demo_session \<noteq> []" by code_simp
  have x: "extract_video_id (unicode_alnum ?e) (video_url demo_session) = Some ?v"
    by code_simp
  have x3: "extract_video_id (unicode_alnum ?e3) (video_url demo_session) = Some ?v"
    and x2: "extract_video_id (unicode_alnum ?e2) (video_url demo_session) = Some ?v"
    and x1: "extract_video_id (unicode_alnum ?e1) (video_url demo_session) = Some ?v"
    using x by (simp_all add: demo_env_def)
  have f: "fetch_transcript ?e ?v = (Inr ?t, ?c1)" by code_simp
  then have f3: "fetch_transcript ?e3 ?v = (Inr ?t, ?c1)"
    and f2: "fetch_transcript ?e2 ?v = (Inr ?t, ?c1)"
    by (simp_all add: fetch_transcript_def demo_env_def)
  have f1: "fetch_transcript ?e1 ?v = (Inl NoTranscriptFound, [ListTranscripts ?v])"
    by code_simp
  have g3: "create_chat_completion ?e3 ?k ?t = (Inr ?s, ?c2)"
    by (simp add: create_chat_completion_def chat_request_of_def demo_env_def)
  have g2: "create_chat_completion ?e2 ?k ?t = (Inl (OtherException (of_ascii ''auth'')), ?c2)"
    by (simp add: create_chat_completion_def chat_request_of_def demo_env_def)
  have h3: "create_tts_audio ?e3 ?k (Some ?s) = (Inl (OtherException (of_ascii ''quota'')), ?c3)"
    by (simp add: create_tts_audio_def demo_env_def)
  from brew_stage_failure [OF k u x1] f1
  have b1: "brew_handler ?e1 ?k demo_session =
      (demo_session, [TranscriptMessage NoTranscriptFound], [ListTranscripts ?v])"
    by simp
  from brew_stage_failure [OF k u x2] f2 g2
  have b2: "brew_handler ?e2 ?k demo_session =
      (demo_session, [GenericMessage (OtherException (of_ascii ''auth''))], ?c1 @ ?c2)"
    by simp
  from brew_stage_failure [OF k u x3] f3 g3 h3
  have b3: "brew_handler ?e3 ?k demo_session =
      (demo_session\<lparr>script := Some ?s\<rparr>,
       [GenericMessage (OtherException (of_ascii ''quota''))], ?c1 @ ?c2 @ ?c3) \<and>
     page_script (run_page ?e3 ?k Brew demo_session) = (if ?s = [] then None else Some ?s)"
    by simp
  have n: "?s \<noteq> []" by code_simp
  from k u x f g3 h3 b3 n f1 b1 g2 b2 show ?thesis by simp
qed

text \<open>
  Claim C7. After a brew that succeeded, with a script and an audio in the session, the
  reset handler leaves the session of a page just opened: no script, no audio, an empty
  URL, from which no identifier is extracted. The page then shows neither script nor
  audio and has made no remote call.
\<close>

theorem reset_after_brew:
  assumes "brew_handler e api_key st = (st', [], cs)"
    and "script st' \<noteq> None" and "audio st' \<noteq> None"
  shows "reset_handler st' = initial_session \<and>
     run_page e api_key Reset st' = render initial_session [] [] \<and>
     page_script (run_page e api_key Reset st') = None \<and>
     page_audio (run_page e api_key Reset st') = None \<and>
     page_calls (run_page e api_key Reset st') = [] \<and>
     extract_video_id (unicode_alnum e) (video_url (reset_handler st')) = None"
proof -
  have r: "reset_handler st' = initial_session"
    by (simp add: reset_handler_def initial_session_def)
  then show ?thesis
    by (simp add: run_page_def render_def shown_script_def shown_audio_def
        initial_session_def extract_empty)
qed

theorem reset_after_brew_witness:
  "brew_handler (demo_env english_only) (of_ascii ''sk-1'') demo_session =
     (demo_session\<lparr>script := Some (of_ascii ''briefing''),
        audio := Some (AudioBytes [73, 68, 51])\<rparr>, [],
      [ListTranscripts (of_ascii ''abcdEFGH12_''), FetchTrack (of_ascii ''en'') False,
       ChatCreate ClientObject (of_ascii ''sk-1'')
         (chat_request_of (demo_env english_only) (of_ascii ''Hello world this is this is news'')),
       SpeechCreate ModuleLevel (of_ascii ''sk-1'')
         (speech_request_of (Some (of_ascii ''briefing'')))]) \<and>
   script (demo_session\<lparr>script := Some (of_ascii ''briefing''),
        audio := Some (AudioBytes [73, 68, 51])\<rparr>) \<noteq> None \<and>
   audio (demo_session\<lparr>script := Some (of_ascii ''briefing''),
        audio := Some (AudioBytes [73, 68, 51])\<rparr>) \<noteq> None \<and>
   reset_handler (demo_session\<lparr>script := Some (of_ascii ''briefing''),
        audio := Some (AudioBytes [73, 68, 51])\<rparr>) = initial_session \<and>
   page_script (run_page (demo_env english_only) (of_ascii ''sk-1'') Reset
     (demo_session\<lparr>script := Some (of_ascii ''briefing''),
        audio := Some (AudioBytes [73, 68, 51])\<rparr>)) = None \<and>
   page_audio (run_page (demo_env english_only) (of_ascii ''sk-1'') Reset
     (demo_session\<lparr>script := Some (of_ascii ''briefing''),
        audio := Some (AudioBytes [73, 68, 51])\<rparr>)) = None \<and>
   extract_video_id (unicode_alnum (demo_env english_only))
     (video_url (reset_handler (demo_session\<lparr>script := Some (of_ascii ''briefing''),
        audio := Some (AudioBytes [73, 68, 51])\<rparr>))) = None"
proof -
  let ?st' = "demo_session\<lparr>script := Some (of_ascii ''briefing''),
        audio := Some (AudioBytes [73, 68, 51])\<rparr>"
  have h: "brew_handler (demo_env english_only) (of_ascii ''sk-1'') demo_session =
     (?st', [],
      [ListTranscripts (of_ascii ''abcdEFGH12_''), FetchTrack (of_ascii ''en'') False,
       ChatCreate ClientObject (of_ascii ''sk-1'')
         (chat_request_of (demo_env english_only) (of_ascii ''Hello world this is this is news'')),
       SpeechCreate ModuleLevel (of_ascii ''sk-1'')
         (speech_request_of (Some (of_ascii ''briefing'')))])"
    by code_simp
  have s: "script ?st' \<noteq> None" and a: "audio ?st' \<noteq> None" by simp_all
  from reset_after_brew [OF h s a] h s a show ?thesis by blast
qed

end
